theory Spec2Isabelle
  imports Complex_Main "HOL-Library.Sublist"
begin

section \<open>Python values\<close>

text \<open>
  Everything the program handles comes out of \<^verbatim>\<open>json.loads\<close>: \<^verbatim>\<open>None\<close>, booleans,
  unbounded integers, floats, strings, lists and dicts. A float is represented by the exact
  rational it denotes, or by one of the three non-finite constants that \<^verbatim>\<open>json.loads\<close>
  accepts. A dict is the list of its items in insertion order; a Python dict has no two
  items with the same key, and lookup takes the first item with the key.
\<close>

datatype pyfloat = Finite rat | PosInf | NegInf | NaN

datatype json =
    JNull
  | JBool bool
  | JInt int
  | JFloat pyfloat
  | JStr string
  | JList "json list"
  | JDict "(string \<times> json) list"

text \<open>
  The exceptions of the interpreter that the modelled operations raise, and \<open>External\<close> for
  an exception raised by a library outside the source (the LLM client, the HTTP client, the
  console, the file system), named by its text. All of them are subclasses of
  \<^verbatim>\<open>Exception\<close>; \<^verbatim>\<open>json.JSONDecodeError\<close> is a subclass of \<^verbatim>\<open>ValueError\<close>.
\<close>

datatype exn = TypeError | KeyError | IndexError | AttributeError | ValueError
  | JSONDecodeError | RecursionError | ZeroDivisionError | OverflowError | External string

subsection \<open>Equality and membership\<close>

text \<open>
  \<^verbatim>\<open>==\<close> on these values: booleans, integers and floats compare by numeric value
  (\<^verbatim>\<open>True == 1 == 1.0\<close>), strings by their characters, lists element by element, dicts by
  their key sets and the values under each key, whatever the insertion order. Values of
  different kinds are unequal. Containers compare their elements by identity first, and
  \<^verbatim>\<open>json.loads\<close> yields one shared object for every \<^verbatim>\<open>NaN\<close>, so \<open>NaN\<close> counts as equal to
  itself here.
\<close>

fun num_val :: "json \<Rightarrow> pyfloat option" where
  "num_val (JBool b) = Some (Finite (if b then 1 else 0))"
| "num_val (JInt i) = Some (Finite (of_int i))"
| "num_val (JFloat f) = Some f"
| "num_val _ = None"

fun py_eq :: "json \<Rightarrow> json \<Rightarrow> bool" where
  "py_eq JNull y = (y = JNull)"
| "py_eq (JStr a) y = (y = JStr a)"
| "py_eq (JList xs) y = (case y of JList ys \<Rightarrow> list_all2 py_eq xs ys | _ \<Rightarrow> False)"
| "py_eq (JDict a) y =
     (case y of
        JDict b \<Rightarrow> length a = length b \<and>
          list_all (\<lambda>kv. case map_of b (fst kv) of None \<Rightarrow> False
                         | Some w \<Rightarrow> py_eq (snd kv) w) a
      | _ \<Rightarrow> False)"
| "py_eq x y = (case num_val y of None \<Rightarrow> False | Some q \<Rightarrow> num_val x = Some q)"

text \<open>\<^verbatim>\<open>x in xs\<close> for a list \<open>xs\<close>.\<close>

definition py_in :: "json \<Rightarrow> json list \<Rightarrow> bool" where
  "py_in x xs = list_ex (\<lambda>e. py_eq e x) xs"

subsection \<open>Iteration, containment, subscripts\<close>

text \<open>
  \<^verbatim>\<open>for x in v\<close>: a list yields its elements, a string its characters (each a string of
  length one), a dict its keys; anything else is not iterable.
\<close>

fun py_iter :: "json \<Rightarrow> exn + json list" where
  "py_iter (JList xs) = Inr xs"
| "py_iter (JStr s) = Inr (map (\<lambda>c. JStr [c]) s)"
| "py_iter (JDict d) = Inr (map (\<lambda>kv. JStr (fst kv)) d)"
| "py_iter _ = Inl TypeError"

text \<open>
  \<^verbatim>\<open>k in v\<close> for a string literal \<open>k\<close>: key membership for a dict, element membership for a
  list, substring test for a string, \<^verbatim>\<open>TypeError\<close> for anything else.
\<close>

fun str_in :: "string \<Rightarrow> json \<Rightarrow> exn + bool" where
  "str_in k (JDict d) = Inr (map_of d k \<noteq> None)"
| "str_in k (JList xs) = Inr (py_in (JStr k) xs)"
| "str_in k (JStr s) = Inr (sublist k s)"
| "str_in k _ = Inl TypeError"

text \<open>
  \<^verbatim>\<open>v[k]\<close> for a string literal \<open>k\<close>: the value under the key for a dict (\<^verbatim>\<open>KeyError\<close>
  when absent); lists and strings take integer indices only, and the other values are
  not subscriptable.
\<close>

fun subscript :: "json \<Rightarrow> string \<Rightarrow> exn + json" where
  "subscript (JDict d) k = (case map_of d k of None \<Rightarrow> Inl KeyError | Some v \<Rightarrow> Inr v)"
| "subscript _ k = Inl TypeError"

text \<open>\<^verbatim>\<open>v[:n]\<close>: strings and lists can be sliced, nothing else can.\<close>

fun slice_to :: "nat \<Rightarrow> json \<Rightarrow> exn + json" where
  "slice_to n (JStr s) = Inr (JStr (take n s))"
| "slice_to n (JList xs) = Inr (JList (take n xs))"
| "slice_to n _ = Inl TypeError"

text \<open>\<^verbatim>\<open>v.get(k, default)\<close>: only a dict has the method.\<close>

fun dict_get :: "json \<Rightarrow> string \<Rightarrow> json \<Rightarrow> exn + json" where
  "dict_get (JDict d) k dflt = Inr (case map_of d k of None \<Rightarrow> dflt | Some v \<Rightarrow> v)"
| "dict_get _ k dflt = Inl AttributeError"

text \<open>Truth value of a value in a condition (\<^verbatim>\<open>if not v\<close>).\<close>

fun truthy :: "json \<Rightarrow> bool" where
  "truthy JNull = False"
| "truthy (JBool b) = b"
| "truthy (JInt i) = (i \<noteq> 0)"
| "truthy (JFloat f) = (f \<noteq> Finite 0)"
| "truthy (JStr s) = (s \<noteq> [])"
| "truthy (JList xs) = (xs \<noteq> [])"
| "truthy (JDict d) = (d \<noteq> [])"

text \<open>
  \<^verbatim>\<open>str(v)\<close> and \<^verbatim>\<open>f"{v}"\<close>: a string is itself; the text of any other value is the
  interpreter's, taken as the parameter \<open>repr\<close>.
\<close>

fun py_str :: "(json \<Rightarrow> string) \<Rightarrow> json \<Rightarrow> string" where
  "py_str repr (JStr s) = s"
| "py_str repr v = repr v"

section \<open>The external collaborators\<close>

text \<open>
  The LLM service, seen through \<^verbatim>\<open>client.responses.create\<close>: a request carries the model
  name, the tool schemas and either a prompt or a message list; a response exposes its
  output items and its output text. The fields \<open>item_name\<close>, \<open>item_arguments\<close> and
  \<open>item_call_id\<close> are those of a function-call item; the source reads them only when
  \<open>item_type\<close> is \<^verbatim>\<open>function_call\<close>.
\<close>

record output_item =
  item_type :: string
  item_name :: string
  item_arguments :: string
  item_call_id :: string

datatype message =
    UserMessage string
  | ModelItem output_item
  | FunctionCallOutput string string

datatype llm_input = Prompt string | Messages "message list"

record llm_request =
  req_model :: string
  req_tools :: "json list"
  req_input :: llm_input

record llm_response =
  response_output :: "output_item list"
  output_text :: string

datatype http_request =
    Get string "(string \<times> string) list"
  | Post string "(string \<times> string) list" json

record http_response =
  status_code :: int
  content :: string

text \<open>
  What the program does not compute itself. The LLM service is not a function of the
  request alone, so \<open>llm n\<close> is its answer to the \<open>n\<close>-th request of the operation under
  way. \<open>json_loads\<close> is \<^verbatim>\<open>json.loads\<close>, with the exception it raises; \<open>py_int\<close> is
  \<^verbatim>\<open>int\<close> on a string, with \<open>None\<close> for \<^verbatim>\<open>ValueError\<close>; \<open>exn_text\<close> is \<^verbatim>\<open>str(e)\<close>;
  \<open>environ\<close> is \<^verbatim>\<open>os.environ.get\<close>; \<open>input_line\<close> is what \<^verbatim>\<open>input\<close> returns or raises;
  \<open>open_ok\<close> and \<open>write_ok\<close> say whether a file can be opened for writing and written.
  Console output and the loading animation are not modelled.
\<close>

record world =
  llm :: "nat \<Rightarrow> llm_request \<Rightarrow> exn + llm_response"
  http :: "http_request \<Rightarrow> exn + http_response"
  json_loads :: "string \<Rightarrow> exn + json"
  py_repr :: "json \<Rightarrow> string"
  py_int :: "string \<Rightarrow> int option"
  exn_text :: "exn \<Rightarrow> string"
  environ :: "string \<Rightarrow> string option"
  input_line :: "exn + string"
  open_ok :: "string \<Rightarrow> bool"
  write_ok :: "string \<Rightarrow> bool"

section \<open>Session state\<close>

record config =
  all_insights :: "json list"
  all_key_players :: "json list"
  all_tickers :: "json list"

section \<open>News analysis\<close>

definition newline :: string where
  "newline = [CHR 0x0A]"

definition web_search_tools :: "json list" where
  "web_search_tools = [JDict [(''type'', JStr ''web_search_preview'')]]"

definition extract_prompt :: "string \<Rightarrow> string" where
  "extract_prompt url =
     ''Visit this URL: '' @ url @ '' and extract the following information:'' @ newline @
     ''1. Key insights and main points from the article'' @ newline @
     ''2. Key companies/players mentioned'' @ newline @
     ''3. Stock ticker symbols for these companies if applicable. Make sure you are giving stock tickers, not company names. For example, if the company is Apple, the stock ticker is AAPL. If the company is Tesla, the stock ticker is TSLA. Even if there are no stock companies directly, try to think of companies that are indirectly related or will be affected by the news. Only mention the top 3 companies affected and an analysis of why they are affected, how their stock prices might be affected, and what the future might hold for them.'' @ newline @
     ''Format the response as JSON with keys 'insights', 'key_players', and 'tickers'. Make sure you dont include ``` json ``` tags in the response.''"

definition empty_record :: json where
  "empty_record =
     JDict [(''insights'', JList []), (''key_players'', JList []), (''tickers'', JList [])]"

text \<open>
  \<^verbatim>\<open>extract_insights_from_url\<close>: the request is outside the \<^verbatim>\<open>try\<close>, so an exception of
  the client propagates; only the decoding of the answer is guarded.
\<close>

definition extract_request :: "world \<Rightarrow> json \<Rightarrow> llm_request" where
  "extract_request w url =
     \<lparr>req_model = ''gpt-4o'', req_tools = web_search_tools,
      req_input = Prompt (extract_prompt (py_str (py_repr w) url))\<rparr>"

definition extract_insights_from_url :: "world \<Rightarrow> json \<Rightarrow> nat \<Rightarrow> exn + json" where
  "extract_insights_from_url w url index =
     (case llm w index (extract_request w url) of
        Inl e \<Rightarrow> Inl e
      | Inr response \<Rightarrow>
          (case json_loads w (output_text response) of
             Inr v \<Rightarrow> Inr v
           | Inl e \<Rightarrow> if e = JSONDecodeError then Inr empty_record else Inl e))"

text \<open>
  The first loop of \<^verbatim>\<open>process_news_data\<close>. The two \<^verbatim>\<open>print\<close> calls evaluate
  \<^verbatim>\<open>article['title']\<close> and \<^verbatim>\<open>article['description'][:100]\<close>, which can raise.
\<close>

fun collect_urls :: "json list \<Rightarrow> json list \<Rightarrow> exn + json list" where
  "collect_urls [] urls = Inr urls"
| "collect_urls (article # rest) urls =
     (case str_in ''url'' article of
        Inl e \<Rightarrow> Inl e
      | Inr has_url \<Rightarrow>
          if \<not> has_url then collect_urls rest urls
          else
            (case subscript article ''url'' of
               Inl e \<Rightarrow> Inl e
             | Inr url \<Rightarrow>
                 (case subscript article ''title'' of
                    Inl e \<Rightarrow> Inl e
                  | Inr title \<Rightarrow>
                      (case str_in ''description'' article of
                         Inl e \<Rightarrow> Inl e
                       | Inr has_description \<Rightarrow>
                           if \<not> has_description then collect_urls rest (urls @ [url])
                           else
                             (case subscript article ''description'' of
                                Inl e \<Rightarrow> Inl e
                              | Inr description \<Rightarrow>
                                  (case slice_to 100 description of
                                     Inl e \<Rightarrow> Inl e
                                   | Inr shown \<Rightarrow> collect_urls rest (urls @ [url])))))))"

text \<open>The two inner loops: one step for a key player, one for a ticker element.\<close>

definition add_player :: "json \<Rightarrow> json list \<Rightarrow> json list" where
  "add_player player players = (if \<not> py_in player players then players @ [player] else players)"

fun add_ticker :: "json \<Rightarrow> json list \<Rightarrow> json list" where
  "add_ticker (JStr s) tickers =
     (if \<not> py_in (JStr s) tickers then tickers @ [JStr s] else tickers)"
| "add_ticker (JDict d) tickers =
     (case map_of d ''symbol'' of
        Some symbol \<Rightarrow> (if \<not> py_in symbol tickers then tickers @ [symbol] else tickers)
      | None \<Rightarrow>
          (case map_of d ''ticker'' of
             Some ticker_symbol \<Rightarrow>
               (if \<not> py_in ticker_symbol tickers then tickers @ [ticker_symbol] else tickers)
           | None \<Rightarrow> tickers))"
| "add_ticker _ tickers = tickers"

text \<open>
  The body of the second loop, for the \<open>i\<close>-th URL. An exception leaves the state as it
  is at that point: the result pairs the outcome with the state.
\<close>

definition insight_record :: "json \<Rightarrow> json \<Rightarrow> json \<Rightarrow> json \<Rightarrow> json" where
  "insight_record url ins players tickers =
     JDict [(''url'', url), (''insights'', ins), (''key_players'', players),
            (''tickers'', tickers)]"

definition process_url :: "world \<Rightarrow> nat \<Rightarrow> json \<Rightarrow> config \<Rightarrow> (exn + unit) \<times> config" where
  "process_url w i url cfg =
     (case extract_insights_from_url w url i of
        Inl e \<Rightarrow> (Inl e, cfg)
      | Inr result \<Rightarrow>
          (case dict_get result ''insights'' (JList []) of
             Inl e \<Rightarrow> (Inl e, cfg)
           | Inr ins \<Rightarrow>
               (case dict_get result ''key_players'' (JList []) of
                  Inl e \<Rightarrow> (Inl e, cfg)
                | Inr players \<Rightarrow>
                    (case dict_get result ''tickers'' (JList []) of
                       Inl e \<Rightarrow> (Inl e, cfg)
                     | Inr tickers \<Rightarrow>
                         (let cfg1 = cfg\<lparr>all_insights :=
                                all_insights cfg @ [insight_record url ins players tickers]\<rparr>
                          in case py_iter players of
                               Inl e \<Rightarrow> (Inl e, cfg1)
                             | Inr ps \<Rightarrow>
                                 (let cfg2 = cfg1\<lparr>all_key_players :=
                                        fold add_player ps (all_key_players cfg1)\<rparr>
                                  in case py_iter tickers of
                                       Inl e \<Rightarrow> (Inl e, cfg2)
                                     | Inr ts \<Rightarrow>
                                         (Inr (), cfg2\<lparr>all_tickers :=
                                            fold add_ticker ts (all_tickers cfg2)\<rparr>)))))))"

fun process_urls :: "world \<Rightarrow> nat \<Rightarrow> json list \<Rightarrow> config \<Rightarrow> (exn + unit) \<times> config" where
  "process_urls w i [] cfg = (Inr (), cfg)"
| "process_urls w i (url # rest) cfg =
     (case process_url w i url cfg of
        (Inl e, cfg') \<Rightarrow> (Inl e, cfg')
      | (Inr u, cfg') \<Rightarrow> process_urls w (Suc i) rest cfg')"

definition process_news_data :: "world \<Rightarrow> json \<Rightarrow> config \<Rightarrow> (exn + bool) \<times> config" where
  "process_news_data w news_data cfg =
     (case py_iter news_data of
        Inl e \<Rightarrow> (Inl e, cfg)
      | Inr articles \<Rightarrow>
          (case collect_urls articles [] of
             Inl e \<Rightarrow> (Inl e, cfg)
           | Inr urls \<Rightarrow>
               if urls = [] then (Inr False, cfg)
               else
                 (case process_urls w 1 urls
                         (cfg\<lparr>all_insights := [], all_key_players := [], all_tickers := []\<rparr>) of
                    (Inl e, cfg') \<Rightarrow> (Inl e, cfg')
                  | (Inr u, cfg') \<Rightarrow> (Inr True, cfg'))))"

section \<open>Stock lookup\<close>

text \<open>
  \<^verbatim>\<open>get_stock_info\<close>. The URL is built outside the \<^verbatim>\<open>try\<close>; formatting cannot raise.
  An absent API key is formatted as \<^verbatim>\<open>None\<close>. \<open>get_stock_info_try\<close> is the body of the
  \<^verbatim>\<open>try\<close>, \<open>get_stock_info\<close> adds the \<^verbatim>\<open>except Exception\<close> handler.
\<close>

definition quote_url :: "string option \<Rightarrow> string \<Rightarrow> string" where
  "quote_url api_key ticker_symbol =
     ''https://www.alphavantage.co/query?function=GLOBAL_QUOTE&symbol='' @ ticker_symbol @
     ''&apikey='' @ (case api_key of None \<Rightarrow> ''None'' | Some k \<Rightarrow> k)"

definition quote_request :: "world \<Rightarrow> json \<Rightarrow> http_request" where
  "quote_request w ticker_symbol =
     Get (quote_url (environ w ''ALPHA_VANTAGE_API_KEY'') (py_str (py_repr w) ticker_symbol)) []"

definition could_not_retrieve :: "world \<Rightarrow> json \<Rightarrow> json" where
  "could_not_retrieve w ticker_symbol =
     JStr (''Could not retrieve price for '' @ py_str (py_repr w) ticker_symbol)"

definition get_stock_info_try :: "world \<Rightarrow> json \<Rightarrow> exn + json" where
  "get_stock_info_try w ticker_symbol =
     (case http w (quote_request w ticker_symbol) of
        Inl e \<Rightarrow> Inl e
      | Inr response \<Rightarrow>
          (case json_loads w (content response) of
             Inl e \<Rightarrow> Inl e
           | Inr data \<Rightarrow>
               (case str_in ''Global Quote'' data of
                  Inl e \<Rightarrow> Inl e
                | Inr has_quote \<Rightarrow>
                    if \<not> has_quote then Inr (could_not_retrieve w ticker_symbol)
                    else
                      (case subscript data ''Global Quote'' of
                         Inl e \<Rightarrow> Inl e
                       | Inr quote \<Rightarrow>
                           (case str_in ''05. price'' quote of
                              Inl e \<Rightarrow> Inl e
                            | Inr has_price \<Rightarrow>
                                if has_price then subscript quote ''05. price''
                                else Inr (could_not_retrieve w ticker_symbol))))))"

definition get_stock_info :: "world \<Rightarrow> json \<Rightarrow> exn + json" where
  "get_stock_info w ticker_symbol =
     (case get_stock_info_try w ticker_symbol of
        Inl e \<Rightarrow> Inr (JStr (''Error: '' @ exn_text w e))
      | Inr v \<Rightarrow> Inr v)"

text \<open>The tool schema of \<^verbatim>\<open>Config.tools\<close>.\<close>

definition config_tools :: "json list" where
  "config_tools =
     [JDict
        [(''type'', JStr ''function''),
         (''name'', JStr ''get_stock_info''),
         (''description'',
          JStr ''Get current stock information for a company by ticker symbol''),
         (''parameters'',
          JDict
            [(''type'', JStr ''object''),
             (''properties'',
              JDict
                [(''ticker_symbol'',
                  JDict
                    [(''type'', JStr ''string''),
                     (''description'',
                      JStr ''The stock ticker symbol, e.g., AAPL for Apple Inc.'')])]),
             (''required'', JList [JStr ''ticker_symbol'']),
             (''additionalProperties'', JBool False)]),
         (''strict'', JBool True)]]"

definition stock_prompt :: "world \<Rightarrow> json \<Rightarrow> string" where
  "stock_prompt w ticker =
     ''Get the current stock information for the ticker: '' @ py_str (py_repr w) ticker"

definition first_request :: "world \<Rightarrow> json \<Rightarrow> llm_request" where
  "first_request w ticker =
     \<lparr>req_model = ''gpt-4o'', req_tools = config_tools,
      req_input = Prompt (stock_prompt w ticker)\<rparr>"

definition follow_up_request :: "world \<Rightarrow> json \<Rightarrow> output_item \<Rightarrow> json \<Rightarrow> llm_request" where
  "follow_up_request w ticker tool_call result =
     \<lparr>req_model = ''gpt-4o'', req_tools = config_tools,
      req_input = Messages
        [UserMessage (stock_prompt w ticker),
         ModelItem tool_call,
         FunctionCallOutput (item_call_id tool_call) (py_str (py_repr w) result)]\<rparr>"

definition is_stock_call :: "output_item \<Rightarrow> bool" where
  "is_stock_call tool_call \<longleftrightarrow>
     item_type tool_call = ''function_call'' \<and> item_name tool_call = ''get_stock_info''"

text \<open>
  The body of the \<^verbatim>\<open>if\<close> inside the loop of \<^verbatim>\<open>get_stock_info_with_api\<close>: nothing here
  is guarded, so a decoding failure of the arguments or an exception of the client
  propagates. \<^verbatim>\<open>args.get("ticker_symbol")\<close> is \<^verbatim>\<open>None\<close> when the key is absent.
\<close>

definition run_tool_call :: "world \<Rightarrow> json \<Rightarrow> output_item \<Rightarrow> exn + string" where
  "run_tool_call w ticker tool_call =
     (case json_loads w (item_arguments tool_call) of
        Inl e \<Rightarrow> Inl e
      | Inr args \<Rightarrow>
          (case dict_get args ''ticker_symbol'' JNull of
             Inl e \<Rightarrow> Inl e
           | Inr ticker_symbol \<Rightarrow>
               (case get_stock_info w ticker_symbol of
                  Inl e \<Rightarrow> Inl e
                | Inr result \<Rightarrow>
                    (case llm w 2 (follow_up_request w ticker tool_call result) of
                       Inl e \<Rightarrow> Inl e
                     | Inr final_response \<Rightarrow> Inr (output_text final_response)))))"

text \<open>The loop over the output items; \<open>None\<close> when it ends without a \<^verbatim>\<open>return\<close>.\<close>

fun scan_tool_calls :: "world \<Rightarrow> json \<Rightarrow> output_item list \<Rightarrow> (exn + string) option" where
  "scan_tool_calls w ticker [] = None"
| "scan_tool_calls w ticker (tool_call # rest) =
     (if is_stock_call tool_call then Some (run_tool_call w ticker tool_call)
      else scan_tool_calls w ticker rest)"

definition get_stock_info_with_api :: "world \<Rightarrow> json \<Rightarrow> exn + string" where
  "get_stock_info_with_api w ticker =
     (case llm w 1 (first_request w ticker) of
        Inl e \<Rightarrow> Inl e
      | Inr response \<Rightarrow>
          (case scan_tool_calls w ticker (response_output response) of
             Some outcome \<Rightarrow> outcome
           | None \<Rightarrow> Inr (output_text response)))"

section \<open>Voice selection and speech synthesis\<close>

text \<open>
  \<^verbatim>\<open>get_eleven_labs_voices\<close> returns \<^verbatim>\<open>None\<close> (here \<open>JNull\<close>) when the key is missing or
  empty, on a status other than 200 and on any exception of the \<^verbatim>\<open>try\<close> block.
\<close>

definition voices_request :: "string \<Rightarrow> http_request" where
  "voices_request api_key =
     Get ''https://api.elevenlabs.io/v1/voices''
       [(''Accept'', ''application/json''), (''xi-api-key'', api_key)]"

definition get_eleven_labs_voices :: "world \<Rightarrow> json" where
  "get_eleven_labs_voices w =
     (case environ w ''ELEVEN_LABS_API_KEY'' of
        None \<Rightarrow> JNull
      | Some api_key \<Rightarrow>
          if api_key = [] then JNull
          else
            (case http w (voices_request api_key) of
               Inl e \<Rightarrow> JNull
             | Inr response \<Rightarrow>
                 if status_code response = 200 then
                   (case json_loads w (content response) of
                      Inl e \<Rightarrow> JNull
                    | Inr body \<Rightarrow>
                        (case dict_get body ''voices'' (JList []) of
                           Inl e \<Rightarrow> JNull
                         | Inr voices \<Rightarrow> voices))
                 else JNull))"

definition default_voice :: json where
  "default_voice = JStr ''21m00Tcm4TlvDq8ikWAM''"

text \<open>\<^verbatim>\<open>len(v)\<close> and \<^verbatim>\<open>v[i]\<close> for an integer \<open>i\<close>.\<close>

fun py_len :: "json \<Rightarrow> exn + nat" where
  "py_len (JList xs) = Inr (length xs)"
| "py_len (JStr s) = Inr (length s)"
| "py_len (JDict d) = Inr (length d)"
| "py_len _ = Inl TypeError"

definition list_index :: "'a list \<Rightarrow> int \<Rightarrow> exn + 'a" where
  "list_index xs i =
     (if 0 \<le> i \<and> i < int (length xs) then Inr (xs ! nat i)
      else if i < 0 \<and> - int (length xs) \<le> i then Inr (xs ! nat (int (length xs) + i))
      else Inl IndexError)"

fun py_index :: "json \<Rightarrow> int \<Rightarrow> exn + json" where
  "py_index (JList xs) i = list_index xs i"
| "py_index (JStr s) i =
     (case list_index s i of Inl e \<Rightarrow> Inl e | Inr c \<Rightarrow> Inr (JStr [c]))"
| "py_index (JDict d) i = Inl KeyError"
| "py_index _ i = Inl TypeError"

text \<open>The loop that prints the voices reads \<^verbatim>\<open>voice['name']\<close> and \<^verbatim>\<open>voice['voice_id']\<close>.\<close>

fun show_voices :: "json list \<Rightarrow> exn + unit" where
  "show_voices [] = Inr ()"
| "show_voices (voice # rest) =
     (case subscript voice ''name'' of
        Inl e \<Rightarrow> Inl e
      | Inr name \<Rightarrow>
          (case subscript voice ''voice_id'' of
             Inl e \<Rightarrow> Inl e
           | Inr voice_id \<Rightarrow> show_voices rest))"

text \<open>
  The \<^verbatim>\<open>try\<close> block of \<^verbatim>\<open>select_voice\<close>, and its handler: \<^verbatim>\<open>except ValueError\<close> catches
  \<^verbatim>\<open>ValueError\<close> and its subclasses, nothing else.
\<close>

definition select_voice_try :: "world \<Rightarrow> json \<Rightarrow> exn + json" where
  "select_voice_try w voices =
     (case py_len voices of
        Inl e \<Rightarrow> Inl e
      | Inr n \<Rightarrow>
          (case input_line w of
             Inl e \<Rightarrow> Inl e
           | Inr choice \<Rightarrow>
               if choice = [] then Inr default_voice
               else
                 (case py_int w choice of
                    None \<Rightarrow> Inl ValueError
                  | Some c \<Rightarrow>
                      if 1 \<le> c \<and> c \<le> int n then
                        (case py_index voices (c - 1) of
                           Inl e \<Rightarrow> Inl e
                         | Inr selected_voice \<Rightarrow>
                             (case subscript selected_voice ''name'' of
                                Inl e \<Rightarrow> Inl e
                              | Inr name \<Rightarrow> subscript selected_voice ''voice_id''))
                      else Inr default_voice)))"

definition select_voice :: "world \<Rightarrow> exn + json" where
  "select_voice w =
     (let voices = get_eleven_labs_voices w
      in if \<not> truthy voices then Inr default_voice
         else
           (case py_iter voices of
              Inl e \<Rightarrow> Inl e
            | Inr vs \<Rightarrow>
                (case show_voices vs of
                   Inl e \<Rightarrow> Inl e
                 | Inr u \<Rightarrow>
                     (case select_voice_try w voices of
                        Inl e \<Rightarrow>
                          if e = ValueError \<or> e = JSONDecodeError then Inr default_voice
                          else Inl e
                      | Inr voice_id \<Rightarrow> Inr voice_id))))"

text \<open>
  \<^verbatim>\<open>text_to_speech\<close>. The file system is a map from paths to contents. The voice is
  selected before the \<^verbatim>\<open>try\<close>, so an exception there propagates; the request, the
  \<^verbatim>\<open>open\<close> and the \<^verbatim>\<open>write\<close> are inside it. \<^verbatim>\<open>open(output_file, 'wb')\<close> creates or
  truncates the file; a \<^verbatim>\<open>write\<close> that fails leaves it as \<^verbatim>\<open>open\<close> made it. The float
  \<^verbatim>\<open>0.8\<close> is the double nearest to it.
\<close>

type_synonym files = "string \<rightharpoonup> string"

definition speech_body :: "string \<Rightarrow> json" where
  "speech_body txt =
     JDict
       [(''text'', JStr txt),
        (''model_id'', JStr ''eleven_multilingual_v2''),
        (''voice_settings'',
         JDict
           [(''stability'', JFloat (Finite (1 / 2))),
            (''similarity_boost'', JFloat (Finite (3602879701896397 / 4503599627370496))),
            (''style'', JFloat (Finite 0)),
            (''use_speaker_boost'', JBool True)])]"

definition speech_request :: "world \<Rightarrow> string \<Rightarrow> json \<Rightarrow> string \<Rightarrow> http_request" where
  "speech_request w api_key voice_id txt =
     Post (''https://api.elevenlabs.io/v1/text-to-speech/'' @ py_str (py_repr w) voice_id)
       [(''Accept'', ''audio/mpeg''), (''Content-Type'', ''application/json''),
        (''xi-api-key'', api_key)]
       (speech_body txt)"

definition text_to_speech ::
  "world \<Rightarrow> string \<Rightarrow> string \<Rightarrow> files \<Rightarrow> (exn + string option) \<times> files" where
  "text_to_speech w txt output_file fs =
     (case environ w ''ELEVEN_LABS_API_KEY'' of
        None \<Rightarrow> (Inr None, fs)
      | Some api_key \<Rightarrow>
          if api_key = [] then (Inr None, fs)
          else
            (case select_voice w of
               Inl e \<Rightarrow> (Inl e, fs)
             | Inr voice_id \<Rightarrow>
                 (case http w (speech_request w api_key voice_id txt) of
                    Inl e \<Rightarrow> (Inr None, fs)
                  | Inr response \<Rightarrow>
                      if status_code response = 200 then
                        (if \<not> open_ok w output_file then (Inr None, fs)
                         else if \<not> write_ok w output_file
                           then (Inr None, fs(output_file \<mapsto> []))
                         else (Inr (Some output_file),
                               fs(output_file \<mapsto> content response)))
                      else (Inr None, fs))))"

section \<open>Video assembly: reconciling the durations\<close>

















section \<open>Notions used to state the properties\<close>

fun is_str :: "json \<Rightarrow> bool" where
  "is_str (JStr s) = True"
| "is_str _ = False"

text \<open>
  Deduplication in first-seen order, stated with the library's \<open>remdups\<close> (which keeps
  the last occurrence of each element) and with plain HOL equality.
\<close>

definition first_seen :: "'a list \<Rightarrow> 'a list" where
  "first_seen xs = rev (remdups (rev xs))"

definition add_new :: "'a \<Rightarrow> 'a list \<Rightarrow> 'a list" where
  "add_new x acc = (if x \<in> set acc then acc else acc @ [x])"

text \<open>
  The normalisation of a ticker element in the specification's words: a bare string is
  itself, a dict contributes its \<^verbatim>\<open>symbol\<close> field or else its \<^verbatim>\<open>ticker\<close> field, any
  other shape contributes nothing.
\<close>

fun ticker_symbol :: "json \<Rightarrow> json option" where
  "ticker_symbol (JStr s) = Some (JStr s)"
| "ticker_symbol (JDict d) =
     (case map_of d ''symbol'' of Some v \<Rightarrow> Some v | None \<Rightarrow> map_of d ''ticker'')"
| "ticker_symbol _ = None"

text \<open>
  The elements that iterating over field \<open>k\<close> of an insight record yields, and the
  candidates of a session: all key players, and all normalised ticker symbols, of the
  insight records in order.
\<close>

definition field_elements :: "string \<Rightarrow> json \<Rightarrow> json list" where
  "field_elements k r =
     (case dict_get r k (JList []) of
        Inl e \<Rightarrow> []
      | Inr v \<Rightarrow> (case py_iter v of Inl e \<Rightarrow> [] | Inr xs \<Rightarrow> xs))"

definition player_candidates :: "json list \<Rightarrow> json list" where
  "player_candidates records = concat (map (field_elements ''key_players'') records)"

definition ticker_candidates :: "json list \<Rightarrow> json list" where
  "ticker_candidates records =
     List.map_filter ticker_symbol (concat (map (field_elements ''tickers'') records))"

text \<open>
  A well-formed entry of the voice catalogue is a dict with a \<^verbatim>\<open>name\<close> and a \<^verbatim>\<open>voice_id\<close>;
  \<open>voice_id_of\<close> reads the identifier of such an entry.
\<close>

fun voice_record :: "json \<Rightarrow> bool" where
  "voice_record (JDict d) = (map_of d ''name'' \<noteq> None \<and> map_of d ''voice_id'' \<noteq> None)"
| "voice_record _ = False"

fun voice_id_of :: "json \<Rightarrow> json" where
  "voice_id_of (JDict d) = (case map_of d ''voice_id'' of None \<Rightarrow> JNull | Some v \<Rightarrow> v)"
| "voice_id_of _ = JNull"



section \<open>A concrete session\<close>

text \<open>
  A world whose LLM answers three extraction requests (the second one not in JSON) and
  whose decoder knows the two JSON answers; it is used to run the operations on concrete
  inputs.
\<close>

definition demo_llm :: "nat \<Rightarrow> llm_request \<Rightarrow> exn + llm_response" where
  \<open>demo_llm n req =
     (if n = 1 then Inr \<lparr>response_output = [], output_text = ''{"key_players": ["Tesla", "tesla", "Tesla"], "tickers": ["TSLA", {"symbol": "F", "ticker": "GM"}, {"ticker": "TSLA"}, 7]}''\<rparr>
      else if n = 2 then Inr \<lparr>response_output = [], output_text = ''I could not open the page.''\<rparr>
      else if n = 3 then Inr \<lparr>response_output = [], output_text = ''{"key_players": ["Ford", "Tesla"], "tickers": [{"ticker": "GM"}, "F"]}''\<rparr>
      else Inl (External ''timeout''))\<close>

definition demo_json_loads :: "string \<Rightarrow> exn + json" where
  \<open>demo_json_loads s =
     (if s = ''{"key_players": ["Tesla", "tesla", "Tesla"], "tickers": ["TSLA", {"symbol": "F", "ticker": "GM"}, {"ticker": "TSLA"}, 7]}''
      then Inr (JDict [(''key_players'', JList [JStr ''Tesla'', JStr ''tesla'', JStr ''Tesla'']),
                        (''tickers'', JList [JStr ''TSLA'',
                           JDict [(''symbol'', JStr ''F''), (''ticker'', JStr ''GM'')],
                           JDict [(''ticker'', JStr ''TSLA'')], JInt 7])])
      else if s = ''{"key_players": ["Ford", "Tesla"], "tickers": [{"ticker": "GM"}, "F"]}''
      then Inr (JDict [(''key_players'', JList [JStr ''Ford'', JStr ''Tesla'']),
                        (''tickers'', JList [JDict [(''ticker'', JStr ''GM'')], JStr ''F''])])
      else Inl JSONDecodeError)\<close>

definition demo_world :: world where
  "demo_world =
     \<lparr>llm = demo_llm, http = (\<lambda>r. Inl (External ''offline'')), json_loads = demo_json_loads,
      py_repr = (\<lambda>v. ''?''), py_int = (\<lambda>s. None), exn_text = (\<lambda>e. ''failed''),
      environ = (\<lambda>k. None), input_line = Inr [], open_ok = (\<lambda>p. True),
      write_ok = (\<lambda>p. True)\<rparr>"

definition demo_news :: json where
  "demo_news =
     JList [JDict [(''title'', JStr ''A''), (''url'', JStr ''https://a.example'')],
            JDict [(''title'', JStr ''no link'')],
            JDict [(''title'', JStr ''B''), (''description'', JStr ''about B''),
                   (''url'', JStr ''https://b.example'')],
            JDict [(''title'', JStr ''C''), (''url'', JStr ''https://c.example'')]]"

definition empty_config :: config where
  "empty_config = \<lparr>all_insights = [], all_key_players = [], all_tickers = []\<rparr>"

definition demo_result :: config where
  "demo_result =
     \<lparr>all_insights =
        [insight_record (JStr ''https://a.example'') (JList [])
           (JList [JStr ''Tesla'', JStr ''tesla'', JStr ''Tesla''])
           (JList [JStr ''TSLA'', JDict [(''symbol'', JStr ''F''), (''ticker'', JStr ''GM'')],
                   JDict [(''ticker'', JStr ''TSLA'')], JInt 7]),
         insight_record (JStr ''https://b.example'') (JList []) (JList []) (JList []),
         insight_record (JStr ''https://c.example'') (JList [])
           (JList [JStr ''Ford'', JStr ''Tesla''])
           (JList [JDict [(''ticker'', JStr ''GM'')], JStr ''F''])],
      all_key_players = [JStr ''Tesla'', JStr ''tesla'', JStr ''Ford''],
      all_tickers = [JStr ''TSLA'', JStr ''F'', JStr ''GM'']\<rparr>"


text \<open>
  A world for the stock lookup: the LLM first asks for the tool and then answers in
  prose, and the quote API answers with a price. \<open>numeric_quote_world\<close> is the same
  world with a quote API that sends the price as a JSON number.
\<close>

definition demo_call :: output_item where
  \<open>demo_call =
     \<lparr>item_type = ''function_call'', item_name = ''get_stock_info'',
      item_arguments = ''{"ticker_symbol": "AAPL"}'', item_call_id = ''call_1''\<rparr>\<close>

definition stock_llm :: "nat \<Rightarrow> llm_request \<Rightarrow> exn + llm_response" where
  "stock_llm n req =
     (if n = 1 then Inr \<lparr>response_output = [demo_call], output_text = []\<rparr>
      else Inr \<lparr>response_output = [], output_text = ''Apple trades at 189.84.''\<rparr>)"

definition stock_json_loads :: "string \<Rightarrow> exn + json" where
  \<open>stock_json_loads s =
     (if s = ''{"ticker_symbol": "AAPL"}'' then Inr (JDict [(''ticker_symbol'', JStr ''AAPL'')])
      else if s = ''{"Global Quote": {"05. price": "189.84"}}''
      then Inr (JDict [(''Global Quote'', JDict [(''05. price'', JStr ''189.84'')])])
      else if s = ''{"Global Quote": {"05. price": 150}}''
      then Inr (JDict [(''Global Quote'', JDict [(''05. price'', JInt 150)])])
      else Inl JSONDecodeError)\<close>

definition stock_world :: world where
  \<open>stock_world =
     \<lparr>llm = stock_llm,
      http = (\<lambda>r. Inr \<lparr>status_code = 200,
                         content = ''{"Global Quote": {"05. price": "189.84"}}''\<rparr>),
      json_loads = stock_json_loads,
      py_repr = (\<lambda>v. ''?''), py_int = (\<lambda>s. None), exn_text = (\<lambda>e. ''failed''),
      environ = (\<lambda>k. if k = ''ALPHA_VANTAGE_API_KEY'' then Some ''demo'' else None),
      input_line = Inr [], open_ok = (\<lambda>p. True), write_ok = (\<lambda>p. True)\<rparr>\<close>

definition numeric_quote_world :: world where
  \<open>numeric_quote_world =
     stock_world\<lparr>http := (\<lambda>r. Inr \<lparr>status_code = 200,
                         content = ''{"Global Quote": {"05. price": 150}}''\<rparr>)\<rparr>\<close>

text \<open>
  A world for the voice selection: the catalogue has five voices and the user types
  \<^verbatim>\<open>99\<close>; the synthesis request is answered with status 500.
\<close>

definition demo_voices :: "json list" where
  "demo_voices =
     [JDict [(''name'', JStr ''Rachel''), (''voice_id'', JStr ''21m00Tcm4TlvDq8ikWAM'')],
      JDict [(''name'', JStr ''Adam''), (''voice_id'', JStr ''v2'')],
      JDict [(''name'', JStr ''Bella''), (''voice_id'', JStr ''v3'')],
      JDict [(''name'', JStr ''Josh''), (''voice_id'', JStr ''v4'')],
      JDict [(''name'', JStr ''Elli''), (''voice_id'', JStr ''v5'')]]"

definition voice_http :: "http_request \<Rightarrow> exn + http_response" where
  "voice_http r =
     (case r of
        Get url headers \<Rightarrow> Inr \<lparr>status_code = 200, content = ''catalogue''\<rparr>
      | Post url headers body \<Rightarrow> Inr \<lparr>status_code = 500, content = ''quota exceeded''\<rparr>)"

definition voice_world :: world where
  "voice_world =
     \<lparr>llm = (\<lambda>n r. Inl (External ''offline'')),
      http = voice_http,
      json_loads = (\<lambda>s. if s = ''catalogue'' then Inr (JDict [(''voices'', JList demo_voices)])
                          else Inl JSONDecodeError),
      py_repr = (\<lambda>v. ''?''),
      py_int = (\<lambda>s. if s = ''99'' then Some 99 else if s = ''2'' then Some 2 else None),
      exn_text = (\<lambda>e. ''failed''),
      environ = (\<lambda>k. if k = ''ELEVEN_LABS_API_KEY'' then Some ''key'' else None),
      input_line = Inr ''99'', open_ok = (\<lambda>p. True), write_ok = (\<lambda>p. True)\<rparr>"




definition nameless_voice_world :: world where
  "nameless_voice_world =
     voice_world
       \<lparr>json_loads :=
          (\<lambda>s. Inr (JDict [(''voices'', JList [JDict [(''voice_id'', JStr ''v1'')]])])),
        input_line := Inr []\<rparr>"

section \<open>Lemmas about the aggregation\<close>

lemma py_eq_str_right: "py_eq e (JStr a) = (e = JStr a)"
  by (cases e) auto

lemma py_in_str: "py_in (JStr a) xs = (JStr a \<in> set xs)"
  by (auto simp: py_in_def list_ex_iff py_eq_str_right)

lemma first_seen_distinct_id: "distinct acc \<Longrightarrow> first_seen acc = acc"
  by (simp add: first_seen_def distinct_remdups_id)

lemma remdups_skip: "x \<in> set zs \<Longrightarrow> remdups (ys @ x # zs) = remdups (ys @ zs)"
  by (induction ys) auto

lemma first_seen_skip:
  "x \<in> set acc \<Longrightarrow> first_seen (acc @ x # xs) = first_seen (acc @ xs)"
  by (simp add: first_seen_def remdups_skip)

lemma fold_add_new: "distinct acc \<Longrightarrow> fold add_new xs acc = first_seen (acc @ xs)"
proof (induction xs arbitrary: acc)
  case Nil
  then show ?case by (simp add: first_seen_distinct_id)
next
  case (Cons x xs)
  show ?case
  proof (cases "x \<in> set acc")
    case True
    then show ?thesis using Cons by (simp add: add_new_def first_seen_skip)
  next
    case False
    then have "distinct (acc @ [x])" using Cons.prems by simp
    from Cons.IH[OF this] False show ?thesis by (simp add: add_new_def)
  qed
qed

lemma distinct_first_seen: "distinct (first_seen xs)"
  by (simp add: first_seen_def)

lemma set_first_seen: "set (first_seen xs) = set xs"
  by (simp add: first_seen_def)

lemma filter_str_add_player:
  "filter is_str (add_player x acc) =
     (if is_str x then add_new x (filter is_str acc) else filter is_str acc)"
  by (cases x) (auto simp: add_player_def add_new_def py_in_str)

lemma filter_str_fold_add_player:
  "filter is_str (fold add_player xs acc) = fold add_new (filter is_str xs) (filter is_str acc)"
  by (induction xs arbitrary: acc) (simp_all add: filter_str_add_player)

lemma subseq_add_player: "subseq (add_player x acc) (acc @ [x])"
  by (simp add: add_player_def subseq_rev_drop_many)

lemma subseq_fold_add_player: "subseq (fold add_player xs acc) (acc @ xs)"
proof (induction xs arbitrary: acc)
  case Nil
  then show ?case by simp
next
  case (Cons x xs)
  have "subseq (fold add_player xs (add_player x acc)) (add_player x acc @ xs)"
    by (rule Cons.IH)
  also have "subseq (add_player x acc @ xs) ((acc @ [x]) @ xs)"
    by (simp only: subseq_append subseq_add_player)
  finally show ?case by simp
qed


lemma dedup_subseq: "subseq (fold add_player xs []) xs"
  using subseq_fold_add_player[of xs "[]"] by simp

lemma dedup_strings:
  "filter is_str (fold add_player xs []) = first_seen (filter is_str xs)"
proof -
  have "filter is_str (fold add_player xs []) = fold add_new (filter is_str xs) []"
    by (simp add: filter_str_fold_add_player)
  also have "\<dots> = first_seen ([] @ filter is_str xs)"
    by (rule fold_add_new) simp
  finally show ?thesis by simp
qed


lemma dedup_keeps_strings:
  assumes "JStr a \<in> set xs"
  shows "JStr a \<in> set (fold add_player xs [])"
proof -
  from assms have "JStr a \<in> set (first_seen (filter is_str xs))"
    by (simp add: set_first_seen)
  then have "JStr a \<in> set (filter is_str (fold add_player xs []))"
    by (simp only: dedup_strings)
  then show ?thesis by simp
qed

lemma distinct_filter_nth:
  assumes "distinct (filter P xs)" and "i < j" and "j < length xs" and "P (xs ! i)"
  shows "xs ! i \<noteq> xs ! j"
proof
  assume eq: "xs ! i = xs ! j"
  have split: "xs = take j xs @ xs ! j # drop (Suc j) xs"
    using assms(3) by (rule id_take_nth_drop)
  have "xs ! i \<in> set (take j xs)"
    using assms(2,3) by (auto simp: in_set_conv_nth intro!: exI[of _ i])
  with assms(4) have mem: "xs ! j \<in> set (filter P (take j xs))"
    using eq by simp
  have "distinct (filter P (take j xs @ xs ! j # drop (Suc j) xs))"
    using assms(1) split by simp
  with mem assms(4) eq show False
    by simp
qed

lemma add_ticker_symbol:
  "add_ticker t acc = (case ticker_symbol t of None \<Rightarrow> acc | Some s \<Rightarrow> add_player s acc)"
  by (cases t) (auto simp: add_player_def split: option.splits)

lemma fold_add_ticker:
  "fold add_ticker ts acc = fold add_player (List.map_filter ticker_symbol ts) acc"
  by (induction ts arbitrary: acc) (simp_all add: add_ticker_symbol split: option.splits)

lemma field_elements_insight_record:
  "field_elements ''key_players'' (insight_record url ins players tickers) =
     (case py_iter players of Inl e \<Rightarrow> [] | Inr xs \<Rightarrow> xs)"
  "field_elements ''tickers'' (insight_record url ins players tickers) =
     (case py_iter tickers of Inl e \<Rightarrow> [] | Inr xs \<Rightarrow> xs)"
  by (simp_all add: field_elements_def insight_record_def)

lemma process_url_ok:
  assumes "process_url w i url cfg = (Inr u, cfg')"
  shows "\<exists>r. all_insights cfg' = all_insights cfg @ [r] \<and>
    all_key_players cfg' = fold add_player (field_elements ''key_players'' r) (all_key_players cfg) \<and>
    all_tickers cfg' = fold add_ticker (field_elements ''tickers'' r) (all_tickers cfg)"
  using assms
  by (auto simp: process_url_def Let_def field_elements_insight_record
           split: sum.splits)

lemma process_urls_ok:
  "process_urls w i urls cfg = (Inr u, cfg') \<Longrightarrow>
   \<exists>rs. all_insights cfg' = all_insights cfg @ rs \<and>
     all_key_players cfg' = fold add_player (player_candidates rs) (all_key_players cfg) \<and>
     all_tickers cfg' =
       fold add_ticker (concat (map (field_elements ''tickers'') rs)) (all_tickers cfg)"
proof (induction urls arbitrary: i cfg)
  case Nil
  then show ?case by (auto simp: player_candidates_def intro: exI[of _ "[]"])
next
  case (Cons url rest)
  from Cons.prems obtain u1 cfg1 where
    step: "process_url w i url cfg = (Inr u1, cfg1)" and
    rest: "process_urls w (Suc i) rest cfg1 = (Inr u, cfg')"
    by (auto split: prod.splits sum.splits)
  from process_url_ok[OF step] obtain r where r:
    "all_insights cfg1 = all_insights cfg @ [r]"
    "all_key_players cfg1 = fold add_player (field_elements ''key_players'' r) (all_key_players cfg)"
    "all_tickers cfg1 = fold add_ticker (field_elements ''tickers'' r) (all_tickers cfg)"
    by blast
  from Cons.IH[OF rest] obtain rs where rs:
    "all_insights cfg' = all_insights cfg1 @ rs"
    "all_key_players cfg' = fold add_player (player_candidates rs) (all_key_players cfg1)"
    "all_tickers cfg' =
       fold add_ticker (concat (map (field_elements ''tickers'') rs)) (all_tickers cfg1)"
    by blast
  show ?case
    by (rule exI[of _ "r # rs"]) (simp add: r rs player_candidates_def)
qed

lemma process_news_data_ok:
  assumes "process_news_data w news_data cfg = (Inr True, cfg')"
  shows "all_key_players cfg' = fold add_player (player_candidates (all_insights cfg')) []"
    and "all_tickers cfg' = fold add_player (ticker_candidates (all_insights cfg')) []"
proof -
  from assms obtain urls u where
    "process_urls w 1 urls (cfg\<lparr>all_insights := [], all_key_players := [], all_tickers := []\<rparr>)
       = (Inr u, cfg')"
    by (auto simp: process_news_data_def split: sum.splits if_splits prod.splits)
  from process_urls_ok[OF this]
  show "all_key_players cfg' = fold add_player (player_candidates (all_insights cfg')) []"
    and "all_tickers cfg' = fold add_player (ticker_candidates (all_insights cfg')) []"
    by (auto simp: ticker_candidates_def fold_add_ticker)
qed

lemma collect_urls_none:
  "\<forall>a \<in> set articles. str_in ''url'' a = Inr False \<Longrightarrow> collect_urls articles urls = Inr urls"
  by (induction articles) simp_all

lemmas demo_defs = demo_world_def demo_llm_def demo_json_loads_def demo_news_def
  empty_config_def

lemma demo_run:
  "process_news_data demo_world demo_news empty_config = (Inr True, demo_result)"
  by (simp add: process_news_data_def demo_defs demo_result_def process_url_def
        extract_insights_from_url_def insight_record_def add_player_def py_in_def Let_def
        empty_record_def)


lemma demo_player_candidates:
  "player_candidates (all_insights demo_result) =
     [JStr ''Tesla'', JStr ''tesla'', JStr ''Tesla'', JStr ''Ford'', JStr ''Tesla'']"
  by (simp add: player_candidates_def demo_result_def field_elements_def insight_record_def)


section \<open>Properties of the news aggregation\<close>



text \<open>
  C2. After a run of \<open>process_news_data\<close> that returns \<open>True\<close>, neither aggregate holds
  the same string at two positions; every string among the candidates is present, so
  strings that differ only in case stay apart; and each aggregate is a subsequence of its
  candidates whose string entries are in first-seen order: nothing is sorted or moved.
\<close>

theorem aggregates_without_duplicate_strings:
  assumes "process_news_data w news_data cfg = (Inr True, cfg')"
  shows "(\<forall>i j. i < j \<and> j < length (all_key_players cfg') \<and> is_str (all_key_players cfg' ! i)
            \<longrightarrow> all_key_players cfg' ! i \<noteq> all_key_players cfg' ! j) \<and>
         (\<forall>i j. i < j \<and> j < length (all_tickers cfg') \<and> is_str (all_tickers cfg' ! i)
            \<longrightarrow> all_tickers cfg' ! i \<noteq> all_tickers cfg' ! j) \<and>
         (\<forall>a. JStr a \<in> set (player_candidates (all_insights cfg'))
            \<longrightarrow> JStr a \<in> set (all_key_players cfg')) \<and>
         (\<forall>a. JStr a \<in> set (ticker_candidates (all_insights cfg'))
            \<longrightarrow> JStr a \<in> set (all_tickers cfg')) \<and>
         subseq (all_key_players cfg') (player_candidates (all_insights cfg')) \<and>
         subseq (all_tickers cfg') (ticker_candidates (all_insights cfg')) \<and>
         filter is_str (all_key_players cfg') =
           first_seen (filter is_str (player_candidates (all_insights cfg'))) \<and>
         filter is_str (all_tickers cfg') =
           first_seen (filter is_str (ticker_candidates (all_insights cfg')))"
proof -
  let ?P = "player_candidates (all_insights cfg')"
  let ?C = "ticker_candidates (all_insights cfg')"
  have P: "all_key_players cfg' = fold add_player ?P []"
    by (rule process_news_data_ok(1)[OF assms])
  have T: "all_tickers cfg' = fold add_player ?C []"
    by (rule process_news_data_ok(2)[OF assms])
  have dP: "distinct (filter is_str (all_key_players cfg'))"
    unfolding P dedup_strings by (rule distinct_first_seen)
  have dT: "distinct (filter is_str (all_tickers cfg'))"
    unfolding T dedup_strings by (rule distinct_first_seen)
  show ?thesis
  proof (intro conjI allI impI)
    fix i j
    assume "i < j \<and> j < length (all_key_players cfg') \<and> is_str (all_key_players cfg' ! i)"
    then show "all_key_players cfg' ! i \<noteq> all_key_players cfg' ! j"
      using distinct_filter_nth[OF dP] by blast
  next
    fix i j
    assume "i < j \<and> j < length (all_tickers cfg') \<and> is_str (all_tickers cfg' ! i)"
    then show "all_tickers cfg' ! i \<noteq> all_tickers cfg' ! j"
      using distinct_filter_nth[OF dT] by blast
  next
    fix a assume "JStr a \<in> set ?P"
    then show "JStr a \<in> set (all_key_players cfg')"
      unfolding P by (rule dedup_keeps_strings)
  next
    fix a assume "JStr a \<in> set ?C"
    then show "JStr a \<in> set (all_tickers cfg')"
      unfolding T by (rule dedup_keeps_strings)
  next
    show "subseq (all_key_players cfg') ?P"
      unfolding P by (rule dedup_subseq)
  next
    show "subseq (all_tickers cfg') ?C"
      unfolding T by (rule dedup_subseq)
  next
    show "filter is_str (all_key_players cfg') = first_seen (filter is_str ?P)"
      unfolding P by (rule dedup_strings)
  next
    show "filter is_str (all_tickers cfg') = first_seen (filter is_str ?C)"
      unfolding T by (rule dedup_strings)
  qed
qed

theorem aggregates_without_duplicate_strings_witness:
  "process_news_data demo_world demo_news empty_config = (Inr True, demo_result) \<and>
   player_candidates (all_insights demo_result) =
     [JStr ''Tesla'', JStr ''tesla'', JStr ''Tesla'', JStr ''Ford'', JStr ''Tesla''] \<and>
   all_key_players demo_result = [JStr ''Tesla'', JStr ''tesla'', JStr ''Ford''] \<and>
   all_key_players demo_result ! 0 \<noteq> all_key_players demo_result ! 1 \<and>
   JStr ''tesla'' \<in> set (all_key_players demo_result) \<and>
   subseq (all_key_players demo_result) (player_candidates (all_insights demo_result))"
proof -
  have p: "all_key_players demo_result = [JStr ''Tesla'', JStr ''tesla'', JStr ''Ford'']"
    by (simp add: demo_result_def)
  have mem: "JStr ''tesla'' \<in> set (player_candidates (all_insights demo_result))"
    by (simp add: demo_player_candidates)
  have pos: "(0::nat) < 1 \<and> 1 < length (all_key_players demo_result) \<and>
      is_str (all_key_players demo_result ! 0)"
    by (simp add: p)
  note main = aggregates_without_duplicate_strings[OF demo_run]
  from main pos have a: "all_key_players demo_result ! 0 \<noteq> all_key_players demo_result ! 1"
    by blast
  from main mem have b: "JStr ''tesla'' \<in> set (all_key_players demo_result)"
    by blast
  from main have c:
    "subseq (all_key_players demo_result) (player_candidates (all_insights demo_result))"
    by blast
  show ?thesis
    by (intro conjI) (fact demo_run demo_player_candidates p a b c)+
qed

text \<open>
  C3. When no element of the input list contains \<^verbatim>\<open>url\<close> (for an article record: it has
  no such key), \<open>process_news_data\<close> returns \<open>False\<close> and the session state is the one
  before the call: the aggregates are reset only after the check for URLs.
\<close>

theorem no_url_returns_false_and_keeps_state:
  assumes "\<forall>a \<in> set articles. str_in ''url'' a = Inr False"
  shows "process_news_data w (JList articles) cfg = (Inr False, cfg)"
  using collect_urls_none[OF assms, of "[]"] by (simp add: process_news_data_def)

theorem no_url_returns_false_and_keeps_state_witness:
  "str_in ''url'' (JDict [(''title'', JStr ''A'')]) = Inr False \<and>
   str_in ''url'' (JDict [(''title'', JStr ''B''), (''description'', JStr ''about B'')]) =
     Inr False \<and>
   process_news_data demo_world
     (JList [JDict [(''title'', JStr ''A'')],
             JDict [(''title'', JStr ''B''), (''description'', JStr ''about B'')]])
     demo_result = (Inr False, demo_result)"
proof -
  have a: "str_in ''url'' (JDict [(''title'', JStr ''A'')]) = Inr False"
    by simp
  have b: "str_in ''url''
      (JDict [(''title'', JStr ''B''), (''description'', JStr ''about B'')]) = Inr False"
    by simp
  have h: "\<forall>a \<in> set [JDict [(''title'', JStr ''A'')],
               JDict [(''title'', JStr ''B''), (''description'', JStr ''about B'')]].
      str_in ''url'' a = Inr False"
    using a b by simp
  from no_url_returns_false_and_keeps_state[OF h, of demo_world demo_result] a b
  show ?thesis by (intro conjI)
qed







section \<open>Properties of the stock lookup\<close>

lemma get_stock_info_returns: "\<exists>v. get_stock_info w t = Inr v"
  by (simp add: get_stock_info_def split: sum.split)

lemma get_stock_info_cases:
  assumes "get_stock_info w t = Inr v"
  shows "(\<exists>e. get_stock_info_try w t = Inl e \<and> v = JStr (''Error: '' @ exn_text w e)) \<or>
         v = could_not_retrieve w t \<or>
         (\<exists>response data q. http w (quote_request w t) = Inr response \<and>
            json_loads w (content response) = Inr data \<and>
            subscript data ''Global Quote'' = Inr q \<and> subscript q ''05. price'' = Inr v)"
proof (cases "get_stock_info_try w t")
  case (Inl e)
  with assms show ?thesis by (simp add: get_stock_info_def)
next
  case (Inr r)
  with assms have v: "r = v" by (simp add: get_stock_info_def)
  from Inr show ?thesis
    unfolding v get_stock_info_try_def
    by (auto split: sum.splits option.splits if_splits)
qed

text \<open>
  C5 (amended). \<open>get_stock_info\<close> always returns and never raises. When the decoded
  response is a dict whose \<^verbatim>\<open>Global Quote\<close> is a dict with a \<^verbatim>\<open>05. price\<close> field it returns
  the value of that field as it is, which is a string only if the API sent a string; when
  \<^verbatim>\<open>Global Quote\<close> or the price field is absent it returns the could-not-retrieve message
  naming the ticker; when the request, the decoding or a lookup raises, it returns
  \<^verbatim>\<open>Error: \<close> followed by the text of the exception. Every result that is not a string
  is the price field of the response.
\<close>

theorem get_stock_info_never_raises:
  "(\<exists>v. get_stock_info w t = Inr v) \<and>
   (\<forall>e. get_stock_info_try w t = Inl e \<longrightarrow>
      get_stock_info w t = Inr (JStr (''Error: '' @ exn_text w e))) \<and>
   (\<forall>response d q p.
      http w (quote_request w t) = Inr response \<and>
      json_loads w (content response) = Inr (JDict d) \<and>
      map_of d ''Global Quote'' = Some (JDict q) \<and> map_of q ''05. price'' = Some p \<longrightarrow>
      get_stock_info w t = Inr p) \<and>
   (\<forall>response data.
      http w (quote_request w t) = Inr response \<and>
      json_loads w (content response) = Inr data \<and>
      (str_in ''Global Quote'' data = Inr False \<or>
       (\<exists>q. str_in ''Global Quote'' data = Inr True \<and>
            subscript data ''Global Quote'' = Inr q \<and>
            str_in ''05. price'' q = Inr False)) \<longrightarrow>
      get_stock_info w t = Inr (could_not_retrieve w t)) \<and>
   (\<forall>v. get_stock_info w t = Inr v \<longrightarrow>
      is_str v \<or>
      (\<exists>response data q. http w (quote_request w t) = Inr response \<and>
         json_loads w (content response) = Inr data \<and>
         subscript data ''Global Quote'' = Inr q \<and> subscript q ''05. price'' = Inr v))"
proof (intro conjI allI impI)
  show "\<exists>v. get_stock_info w t = Inr v"
    by (rule get_stock_info_returns)
next
  fix e assume "get_stock_info_try w t = Inl e"
  then show "get_stock_info w t = Inr (JStr (''Error: '' @ exn_text w e))"
    by (simp add: get_stock_info_def)
next
  fix response d q p
  assume "http w (quote_request w t) = Inr response \<and>
      json_loads w (content response) = Inr (JDict d) \<and>
      map_of d ''Global Quote'' = Some (JDict q) \<and> map_of q ''05. price'' = Some p"
  then show "get_stock_info w t = Inr p"
    by (simp add: get_stock_info_def get_stock_info_try_def)
next
  fix response data
  assume "http w (quote_request w t) = Inr response \<and>
      json_loads w (content response) = Inr data \<and>
      (str_in ''Global Quote'' data = Inr False \<or>
       (\<exists>q. str_in ''Global Quote'' data = Inr True \<and>
            subscript data ''Global Quote'' = Inr q \<and>
            str_in ''05. price'' q = Inr False))"
  then show "get_stock_info w t = Inr (could_not_retrieve w t)"
    by (auto simp: get_stock_info_def get_stock_info_try_def)
next
  fix v assume "get_stock_info w t = Inr v"
  from get_stock_info_cases[OF this]
  show "is_str v \<or>
      (\<exists>response data q. http w (quote_request w t) = Inr response \<and>
         json_loads w (content response) = Inr data \<and>
         subscript data ''Global Quote'' = Inr q \<and> subscript q ''05. price'' = Inr v)"
    by (auto simp: could_not_retrieve_def)
qed

lemma stock_world_quote:
  "get_stock_info stock_world (JStr ''AAPL'') = Inr (JStr ''189.84'')"
  by (simp add: get_stock_info_def get_stock_info_try_def stock_world_def
        stock_json_loads_def quote_request_def)

theorem get_stock_info_never_raises_witness:
  \<open>http stock_world (quote_request stock_world (JStr ''AAPL'')) =
     Inr \<lparr>status_code = 200, content = ''{"Global Quote": {"05. price": "189.84"}}''\<rparr> \<and>
   json_loads stock_world ''{"Global Quote": {"05. price": "189.84"}}'' =
     Inr (JDict [(''Global Quote'', JDict [(''05. price'', JStr ''189.84'')])]) \<and>
   get_stock_info stock_world (JStr ''AAPL'') = Inr (JStr ''189.84'')\<close>
proof -
  have a: \<open>http stock_world (quote_request stock_world (JStr ''AAPL'')) =
      Inr \<lparr>status_code = 200, content = ''{"Global Quote": {"05. price": "189.84"}}''\<rparr>\<close>
    by (simp add: stock_world_def)
  have b: \<open>json_loads stock_world ''{"Global Quote": {"05. price": "189.84"}}'' =
      Inr (JDict [(''Global Quote'', JDict [(''05. price'', JStr ''189.84'')])])\<close>
    by (simp add: stock_world_def stock_json_loads_def)
  have c: \<open>http stock_world (quote_request stock_world (JStr ''AAPL'')) =
        Inr \<lparr>status_code = 200, content = ''{"Global Quote": {"05. price": "189.84"}}''\<rparr> \<and>
      json_loads stock_world
        (content \<lparr>status_code = 200, content = ''{"Global Quote": {"05. price": "189.84"}}''\<rparr>) =
        Inr (JDict [(''Global Quote'', JDict [(''05. price'', JStr ''189.84'')])]) \<and>
      map_of [(''Global Quote'', JDict [(''05. price'', JStr ''189.84'')])] ''Global Quote'' =
        Some (JDict [(''05. price'', JStr ''189.84'')]) \<and>
      map_of [(''05. price'', JStr ''189.84'')] ''05. price'' = Some (JStr ''189.84'')\<close>
    using a b by simp
  have all: "\<forall>response d q p.
      http stock_world (quote_request stock_world (JStr ''AAPL'')) = Inr response \<and>
      json_loads stock_world (content response) = Inr (JDict d) \<and>
      map_of d ''Global Quote'' = Some (JDict q) \<and> map_of q ''05. price'' = Some p \<longrightarrow>
      get_stock_info stock_world (JStr ''AAPL'') = Inr p"
    using get_stock_info_never_raises[of stock_world "JStr ''AAPL''"] by (elim conjE)
  from all c have "get_stock_info stock_world (JStr ''AAPL'') = Inr (JStr ''189.84'')"
    by (elim allE impE) assumption+
  with a b show ?thesis by (intro conjI)
qed

text \<open>
  The claim as written, that the result is always a string, fails when the quote API
  sends the price as a JSON number: the number comes back as it is.
\<close>

theorem stock_price_not_always_string_counterexample:
  "get_stock_info numeric_quote_world (JStr ''AAPL'') = Inr (JInt 150) \<and> \<not> is_str (JInt 150)"
  by (simp add: get_stock_info_def get_stock_info_try_def numeric_quote_world_def
        stock_world_def stock_json_loads_def quote_request_def)

lemma scan_tool_calls_none:
  "\<forall>x \<in> set items. \<not> is_stock_call x \<Longrightarrow> scan_tool_calls w ticker items = None"
  by (induction items) simp_all

lemma scan_tool_calls_first:
  "\<forall>x \<in> set pre. \<not> is_stock_call x \<Longrightarrow> is_stock_call tool_call \<Longrightarrow>
   scan_tool_calls w ticker (pre @ tool_call # post) = Some (run_tool_call w ticker tool_call)"
  by (induction pre) simp_all

text \<open>
  C6. Given the first response of the LLM: when none of its output items is a function
  call named \<^verbatim>\<open>get_stock_info\<close>, \<open>get_stock_info_with_api\<close> returns the output text of
  that response. Otherwise, for the first such item, whose arguments decode to a dict,
  \<open>get_stock_info\<close> is run on the \<^verbatim>\<open>ticker_symbol\<close> argument (\<^verbatim>\<open>None\<close> when absent), the
  second request carries the user message, the function-call item and a
  \<^verbatim>\<open>function_call_output\<close> with the call's \<^verbatim>\<open>call_id\<close> and the result as text, and the
  output text of the second response is returned.
\<close>

theorem two_step_tool_protocol:
  assumes "llm w 1 (first_request w ticker) = Inr response"
  shows "((\<forall>x \<in> set (response_output response). \<not> is_stock_call x) \<longrightarrow>
            get_stock_info_with_api w ticker = Inr (output_text response)) \<and>
         (\<forall>pre tool_call post d result final_response.
            response_output response = pre @ tool_call # post \<and>
            (\<forall>x \<in> set pre. \<not> is_stock_call x) \<and> is_stock_call tool_call \<and>
            json_loads w (item_arguments tool_call) = Inr (JDict d) \<and>
            get_stock_info w (case map_of d ''ticker_symbol'' of None \<Rightarrow> JNull | Some v \<Rightarrow> v) =
              Inr result \<and>
            llm w 2 \<lparr>req_model = ''gpt-4o'', req_tools = config_tools,
                      req_input = Messages
                        [UserMessage (stock_prompt w ticker),
                         ModelItem tool_call,
                         FunctionCallOutput (item_call_id tool_call)
                           (py_str (py_repr w) result)]\<rparr> = Inr final_response \<longrightarrow>
            get_stock_info_with_api w ticker = Inr (output_text final_response))"
proof (intro conjI allI impI)
  assume "\<forall>x \<in> set (response_output response). \<not> is_stock_call x"
  then have "scan_tool_calls w ticker (response_output response) = None"
    by (rule scan_tool_calls_none)
  with assms show "get_stock_info_with_api w ticker = Inr (output_text response)"
    by (simp add: get_stock_info_with_api_def)
next
  fix pre tool_call post d result final_response
  assume h: "response_output response = pre @ tool_call # post \<and>
            (\<forall>x \<in> set pre. \<not> is_stock_call x) \<and> is_stock_call tool_call \<and>
            json_loads w (item_arguments tool_call) = Inr (JDict d) \<and>
            get_stock_info w (case map_of d ''ticker_symbol'' of None \<Rightarrow> JNull | Some v \<Rightarrow> v) =
              Inr result \<and>
            llm w 2 \<lparr>req_model = ''gpt-4o'', req_tools = config_tools,
                      req_input = Messages
                        [UserMessage (stock_prompt w ticker),
                         ModelItem tool_call,
                         FunctionCallOutput (item_call_id tool_call)
                           (py_str (py_repr w) result)]\<rparr> = Inr final_response"
  then have scan: "scan_tool_calls w ticker (response_output response) =
      Some (run_tool_call w ticker tool_call)"
    by (simp add: scan_tool_calls_first)
  from h have "run_tool_call w ticker tool_call = Inr (output_text final_response)"
    by (simp add: run_tool_call_def follow_up_request_def)
  with scan assms show "get_stock_info_with_api w ticker = Inr (output_text final_response)"
    by (simp add: get_stock_info_with_api_def)
qed

theorem two_step_tool_protocol_witness:
  \<open>llm stock_world 1 (first_request stock_world (JStr ''AAPL'')) =
     Inr \<lparr>response_output = [demo_call], output_text = []\<rparr> \<and>
   is_stock_call demo_call \<and>
   json_loads stock_world (item_arguments demo_call) =
     Inr (JDict [(''ticker_symbol'', JStr ''AAPL'')]) \<and>
   get_stock_info stock_world (JStr ''AAPL'') = Inr (JStr ''189.84'') \<and>
   llm stock_world 2
     \<lparr>req_model = ''gpt-4o'', req_tools = config_tools,
      req_input = Messages
        [UserMessage (stock_prompt stock_world (JStr ''AAPL'')),
         ModelItem demo_call,
         FunctionCallOutput ''call_1'' ''189.84'']\<rparr> =
     Inr \<lparr>response_output = [], output_text = ''Apple trades at 189.84.''\<rparr> \<and>
   get_stock_info_with_api stock_world (JStr ''AAPL'') = Inr ''Apple trades at 189.84.''\<close>
proof -
  let ?r1 = "\<lparr>response_output = [demo_call], output_text = []\<rparr>"
  let ?r2 = "\<lparr>response_output = [], output_text = ''Apple trades at 189.84.''\<rparr>"
  let ?d = "[(''ticker_symbol'', JStr ''AAPL'')]"
  have a: "llm stock_world 1 (first_request stock_world (JStr ''AAPL'')) = Inr ?r1"
    by (simp add: stock_world_def stock_llm_def)
  have b: "is_stock_call demo_call"
    by (simp add: is_stock_call_def demo_call_def)
  have c: "json_loads stock_world (item_arguments demo_call) = Inr (JDict ?d)"
    by (simp add: stock_world_def stock_json_loads_def demo_call_def)
  have e: "llm stock_world 2
     \<lparr>req_model = ''gpt-4o'', req_tools = config_tools,
      req_input = Messages
        [UserMessage (stock_prompt stock_world (JStr ''AAPL'')),
         ModelItem demo_call,
         FunctionCallOutput ''call_1'' ''189.84'']\<rparr> = Inr ?r2"
    by (simp add: stock_world_def stock_llm_def)
  have h: "response_output ?r1 = [] @ demo_call # [] \<and>
      (\<forall>x \<in> set []. \<not> is_stock_call x) \<and> is_stock_call demo_call \<and>
      json_loads stock_world (item_arguments demo_call) = Inr (JDict ?d) \<and>
      get_stock_info stock_world
        (case map_of ?d ''ticker_symbol'' of None \<Rightarrow> JNull | Some v \<Rightarrow> v) =
        Inr (JStr ''189.84'') \<and>
      llm stock_world 2
        \<lparr>req_model = ''gpt-4o'', req_tools = config_tools,
         req_input = Messages
           [UserMessage (stock_prompt stock_world (JStr ''AAPL'')),
            ModelItem demo_call,
            FunctionCallOutput (item_call_id demo_call)
              (py_str (py_repr stock_world) (JStr ''189.84''))]\<rparr> = Inr ?r2"
    using b c e stock_world_quote by (simp add: demo_call_def)
  have all: "\<forall>pre tool_call post d result final_response.
      response_output ?r1 = pre @ tool_call # post \<and>
      (\<forall>x \<in> set pre. \<not> is_stock_call x) \<and> is_stock_call tool_call \<and>
      json_loads stock_world (item_arguments tool_call) = Inr (JDict d) \<and>
      get_stock_info stock_world
        (case map_of d ''ticker_symbol'' of None \<Rightarrow> JNull | Some v \<Rightarrow> v) = Inr result \<and>
      llm stock_world 2
        \<lparr>req_model = ''gpt-4o'', req_tools = config_tools,
         req_input = Messages
           [UserMessage (stock_prompt stock_world (JStr ''AAPL'')),
            ModelItem tool_call,
            FunctionCallOutput (item_call_id tool_call)
              (py_str (py_repr stock_world) result)]\<rparr> = Inr final_response \<longrightarrow>
      get_stock_info_with_api stock_world (JStr ''AAPL'') = Inr (output_text final_response)"
    using two_step_tool_protocol[OF a] by (elim conjE)
  from all h have "get_stock_info_with_api stock_world (JStr ''AAPL'') = Inr (output_text ?r2)"
    by (elim allE impE) assumption+
  then have f: "get_stock_info_with_api stock_world (JStr ''AAPL'') =
      Inr ''Apple trades at 189.84.''"
    by simp
  show ?thesis
    by (intro conjI) (fact a b c e f stock_world_quote)+
qed


section \<open>Properties of voice selection and speech synthesis\<close>

lemma voice_record_subscript:
  assumes "voice_record v"
  shows "\<exists>n. subscript v ''name'' = Inr n" and "subscript v ''voice_id'' = Inr (voice_id_of v)"
  using assms by (cases v; auto)+

lemma show_voices_ok: "\<forall>v \<in> set vs. voice_record v \<Longrightarrow> show_voices vs = Inr ()"
proof (induction vs)
  case Nil
  show ?case by simp
next
  case (Cons v vs)
  then have "voice_record v" by simp
  from voice_record_subscript[OF this] obtain n where
    "subscript v ''name'' = Inr n" and "subscript v ''voice_id'' = Inr (voice_id_of v)"
    by blast
  with Cons show ?case by simp
qed

lemma select_voice_try_catalogue:
  assumes wf: "\<forall>v \<in> set vs. voice_record v" and inp: "input_line w = Inr choice"
  shows "select_voice_try w (JList vs) =
     (if choice = [] then Inr default_voice
      else case py_int w choice of
             None \<Rightarrow> Inl ValueError
           | Some c \<Rightarrow>
               if 1 \<le> c \<and> c \<le> int (length vs) then Inr (voice_id_of (vs ! nat (c - 1)))
               else Inr default_voice)"
proof (cases "py_int w choice")
  case None
  with inp show ?thesis by (simp add: select_voice_try_def)
next
  case (Some c)
  show ?thesis
  proof (cases "1 \<le> c \<and> c \<le> int (length vs)")
    case False
    with Some inp show ?thesis by (auto simp: select_voice_try_def)
  next
    case True
    then have idx: "list_index vs (c - 1) = Inr (vs ! nat (c - 1))"
      by (simp add: list_index_def)
    from True have "nat (c - 1) < length vs" by linarith
    then have "vs ! nat (c - 1) \<in> set vs" by (rule nth_mem)
    with wf have "voice_record (vs ! nat (c - 1))" by blast
    from voice_record_subscript[OF this] obtain n where
      "subscript (vs ! nat (c - 1)) ''name'' = Inr n" and
      "subscript (vs ! nat (c - 1)) ''voice_id'' = Inr (voice_id_of (vs ! nat (c - 1)))"
      by blast
    with True Some inp idx show ?thesis
      by (simp add: select_voice_try_def)
  qed
qed

lemma select_voice_catalogue:
  assumes "get_eleven_labs_voices w = JNull \<and> vs = [] \<or>
           get_eleven_labs_voices w = JList vs \<and> (\<forall>v \<in> set vs. voice_record v)"
  shows "(vs = [] \<longrightarrow> select_voice w = Inr default_voice) \<and>
         (\<forall>choice. input_line w = Inr choice \<longrightarrow>
            select_voice w =
              Inr (if vs = [] \<or> choice = [] then default_voice
                   else case py_int w choice of
                          None \<Rightarrow> default_voice
                        | Some c \<Rightarrow>
                            if 1 \<le> c \<and> c \<le> int (length vs)
                            then voice_id_of (vs ! nat (c - 1))
                            else default_voice))"
proof (cases "vs = []")
  case True
  with assms have "\<not> truthy (get_eleven_labs_voices w)" by auto
  then have "select_voice w = Inr default_voice"
    by (simp add: select_voice_def Let_def)
  with True show ?thesis by simp
next
  case False
  with assms have v: "get_eleven_labs_voices w = JList vs" and
    wf: "\<forall>v \<in> set vs. voice_record v"
    by auto
  have "select_voice w =
      Inr (if choice = [] then default_voice
           else case py_int w choice of
                  None \<Rightarrow> default_voice
                | Some c \<Rightarrow>
                    if 1 \<le> c \<and> c \<le> int (length vs)
                    then voice_id_of (vs ! nat (c - 1))
                    else default_voice)"
    if inp: "input_line w = Inr choice" for choice
    using False
    by (simp add: select_voice_def Let_def v show_voices_ok[OF wf]
          select_voice_try_catalogue[OF wf inp] split: option.split)
  with False show ?thesis by simp
qed

text \<open>
  C7 (amended). For a voice catalogue that is null or a list of records with a \<^verbatim>\<open>name\<close>
  and a \<^verbatim>\<open>voice_id\<close>: with an empty or null catalogue \<open>select_voice\<close> returns the
  default identifier \<^verbatim>\<open>21m00Tcm4TlvDq8ikWAM\<close> without reading input; otherwise, for every
  line the user types, it returns (and does not raise) the default identifier when the
  line is empty, when \<^verbatim>\<open>int\<close> rejects it, or when the number is outside
  \<open>1..len(voices)\<close>, and the \<^verbatim>\<open>voice_id\<close> of the chosen entry when the number is inside
  that range.
\<close>

theorem select_voice_falls_back:
  assumes "get_eleven_labs_voices w = JNull \<and> vs = [] \<or>
           get_eleven_labs_voices w = JList vs \<and> (\<forall>v \<in> set vs. voice_record v)"
  shows "(vs = [] \<longrightarrow> select_voice w = Inr (JStr ''21m00Tcm4TlvDq8ikWAM'')) \<and>
         (\<forall>choice. input_line w = Inr choice \<longrightarrow>
            select_voice w =
              Inr (if vs = [] \<or> choice = [] then JStr ''21m00Tcm4TlvDq8ikWAM''
                   else case py_int w choice of
                          None \<Rightarrow> JStr ''21m00Tcm4TlvDq8ikWAM''
                        | Some c \<Rightarrow>
                            if 1 \<le> c \<and> c \<le> int (length vs)
                            then voice_id_of (vs ! nat (c - 1))
                            else JStr ''21m00Tcm4TlvDq8ikWAM''))"
  using select_voice_catalogue[OF assms] unfolding default_voice_def .

lemma voice_world_catalogue: "get_eleven_labs_voices voice_world = JList demo_voices"
  by (simp add: get_eleven_labs_voices_def voice_world_def voice_http_def voices_request_def)

lemma demo_voices_wf: "\<forall>v \<in> set demo_voices. voice_record v"
  by (simp add: demo_voices_def)

theorem select_voice_falls_back_witness:
  "get_eleven_labs_voices voice_world = JList demo_voices \<and>
   length demo_voices = 5 \<and>
   input_line voice_world = Inr ''99'' \<and>
   py_int voice_world ''99'' = Some 99 \<and>
   select_voice voice_world = Inr (JStr ''21m00Tcm4TlvDq8ikWAM'') \<and>
   input_line (voice_world\<lparr>input_line := Inr ''2''\<rparr>) = Inr ''2'' \<and>
   py_int (voice_world\<lparr>input_line := Inr ''2''\<rparr>) ''2'' = Some 2 \<and>
   select_voice (voice_world\<lparr>input_line := Inr ''2''\<rparr>) = Inr (JStr ''v2'')"
proof -
  let ?w2 = "voice_world\<lparr>input_line := Inr ''2''\<rparr>"
  have len: "length demo_voices = 5"
    by (simp add: demo_voices_def)
  have i1: "input_line voice_world = Inr ''99''" and p1: "py_int voice_world ''99'' = Some 99"
    by (simp_all add: voice_world_def)
  have i2: "input_line ?w2 = Inr ''2''" and p2: "py_int ?w2 ''2'' = Some 2"
    by (simp_all add: voice_world_def)
  have c2: "get_eleven_labs_voices ?w2 = JList demo_voices"
    by (simp add: get_eleven_labs_voices_def voice_world_def voice_http_def voices_request_def)
  have h1: "get_eleven_labs_voices voice_world = JNull \<and> demo_voices = [] \<or>
      get_eleven_labs_voices voice_world = JList demo_voices \<and>
      (\<forall>v \<in> set demo_voices. voice_record v)"
    using voice_world_catalogue demo_voices_wf by simp
  have h2: "get_eleven_labs_voices ?w2 = JNull \<and> demo_voices = [] \<or>
      get_eleven_labs_voices ?w2 = JList demo_voices \<and>
      (\<forall>v \<in> set demo_voices. voice_record v)"
    using c2 demo_voices_wf by simp
  have ne: "demo_voices \<noteq> []"
    by (simp add: demo_voices_def)
  from select_voice_falls_back[OF h1, THEN conjunct2, rule_format, OF i1]
  have "select_voice voice_world =
      Inr (if demo_voices = [] \<or> ''99'' = [] then JStr ''21m00Tcm4TlvDq8ikWAM''
           else case py_int voice_world ''99'' of
                  None \<Rightarrow> JStr ''21m00Tcm4TlvDq8ikWAM''
                | Some c \<Rightarrow>
                    if 1 \<le> c \<and> c \<le> int (length demo_voices)
                    then voice_id_of (demo_voices ! nat (c - 1))
                    else JStr ''21m00Tcm4TlvDq8ikWAM'')" .
  then have r1: "select_voice voice_world = Inr (JStr ''21m00Tcm4TlvDq8ikWAM'')"
    using ne p1 len by simp
  from select_voice_falls_back[OF h2, THEN conjunct2, rule_format, OF i2]
  have "select_voice ?w2 =
      Inr (if demo_voices = [] \<or> ''2'' = [] then JStr ''21m00Tcm4TlvDq8ikWAM''
           else case py_int ?w2 ''2'' of
                  None \<Rightarrow> JStr ''21m00Tcm4TlvDq8ikWAM''
                | Some c \<Rightarrow>
                    if 1 \<le> c \<and> c \<le> int (length demo_voices)
                    then voice_id_of (demo_voices ! nat (c - 1))
                    else JStr ''21m00Tcm4TlvDq8ikWAM'')" .
  then have r2: "select_voice ?w2 = Inr (JStr ''v2'')"
    using ne p2 len by (simp add: demo_voices_def)
  show ?thesis
    by (intro conjI) (fact voice_world_catalogue len i1 p1 r1 i2 p2 r2)+
qed

text \<open>
  The claim as written, for every voice list, fails on a catalogue with an entry that has
  no \<^verbatim>\<open>name\<close>: the loop that prints the voices raises before any input is read.
\<close>

theorem nameless_voice_raises_counterexample:
  "get_eleven_labs_voices nameless_voice_world = JList [JDict [(''voice_id'', JStr ''v1'')]] \<and>
   input_line nameless_voice_world = Inr [] \<and>
   select_voice nameless_voice_world = Inl KeyError"
proof -
  have c: "get_eleven_labs_voices nameless_voice_world =
      JList [JDict [(''voice_id'', JStr ''v1'')]]"
    by (simp add: get_eleven_labs_voices_def nameless_voice_world_def voice_world_def
          voice_http_def voices_request_def)
  have i: "input_line nameless_voice_world = Inr []"
    by (simp add: nameless_voice_world_def)
  have s: "select_voice nameless_voice_world = Inl KeyError"
    by (simp add: select_voice_def Let_def c)
  show ?thesis
    by (intro conjI) (fact c i s)+
qed

text \<open>
  C9. With the API key set and a voice selected, \<open>text_to_speech\<close> returns \<^verbatim>\<open>None\<close> and
  leaves the file system as it was when the request raises or is answered with a status
  other than 200; on status 200, when the file can be opened and written, it stores the
  bytes of the response under the output path and returns that path; a path is returned,
  and the file system is changed at all, only on a response with status 200.
\<close>

theorem text_to_speech_writes_only_on_200:
  assumes "environ w ''ELEVEN_LABS_API_KEY'' = Some api_key" and "api_key \<noteq> []"
    and "select_voice w = Inr voice_id"
  shows "(\<forall>e. http w (speech_request w api_key voice_id txt) = Inl e \<longrightarrow>
            text_to_speech w txt output_file fs = (Inr None, fs)) \<and>
         (\<forall>r. http w (speech_request w api_key voice_id txt) = Inr r \<and> status_code r \<noteq> 200 \<longrightarrow>
            text_to_speech w txt output_file fs = (Inr None, fs)) \<and>
         (\<forall>r. http w (speech_request w api_key voice_id txt) = Inr r \<and> status_code r = 200 \<and>
              open_ok w output_file \<and> write_ok w output_file \<longrightarrow>
            text_to_speech w txt output_file fs =
              (Inr (Some output_file), fs(output_file \<mapsto> content r))) \<and>
         (\<forall>p fs'. text_to_speech w txt output_file fs = (Inr (Some p), fs') \<longrightarrow>
            p = output_file \<and>
            (\<exists>r. http w (speech_request w api_key voice_id txt) = Inr r \<and>
                 status_code r = 200 \<and> fs' = fs(output_file \<mapsto> content r))) \<and>
         (\<forall>res fs'. text_to_speech w txt output_file fs = (res, fs') \<and> fs' \<noteq> fs \<longrightarrow>
            (\<exists>r. http w (speech_request w api_key voice_id txt) = Inr r \<and>
                 status_code r = 200))"
proof -
  have c1: "\<forall>e. http w (speech_request w api_key voice_id txt) = Inl e \<longrightarrow>
      text_to_speech w txt output_file fs = (Inr None, fs)"
    using assms by (simp add: text_to_speech_def)
  have c2: "\<forall>r. http w (speech_request w api_key voice_id txt) = Inr r \<and>
        status_code r \<noteq> 200 \<longrightarrow>
      text_to_speech w txt output_file fs = (Inr None, fs)"
    using assms by (simp add: text_to_speech_def)
  have c3: "\<forall>r. http w (speech_request w api_key voice_id txt) = Inr r \<and>
        status_code r = 200 \<and> open_ok w output_file \<and> write_ok w output_file \<longrightarrow>
      text_to_speech w txt output_file fs =
        (Inr (Some output_file), fs(output_file \<mapsto> content r))"
    using assms by (simp add: text_to_speech_def)
  have c4: "\<forall>p fs'. text_to_speech w txt output_file fs = (Inr (Some p), fs') \<longrightarrow>
      p = output_file \<and>
      (\<exists>r. http w (speech_request w api_key voice_id txt) = Inr r \<and>
           status_code r = 200 \<and> fs' = fs(output_file \<mapsto> content r))"
    using assms by (auto simp: text_to_speech_def split: sum.splits if_splits)
  have c5: "\<forall>res fs'. text_to_speech w txt output_file fs = (res, fs') \<and> fs' \<noteq> fs \<longrightarrow>
      (\<exists>r. http w (speech_request w api_key voice_id txt) = Inr r \<and>
           status_code r = 200)"
    using assms by (auto simp: text_to_speech_def split: sum.splits if_splits)
  show ?thesis
    by (intro conjI) (fact c1 c2 c3 c4 c5)+
qed

lemma voice_world_select: "select_voice voice_world = Inr default_voice"
proof -
  have i: "input_line voice_world = Inr ''99''" and p: "py_int voice_world ''99'' = Some 99"
    by (simp_all add: voice_world_def)
  show ?thesis
    by (simp add: select_voice_def Let_def voice_world_catalogue demo_voices_def
          select_voice_try_def i p)
qed

theorem text_to_speech_writes_only_on_200_witness:
  "environ voice_world ''ELEVEN_LABS_API_KEY'' = Some ''key'' \<and>
   select_voice voice_world = Inr default_voice \<and>
   http voice_world (speech_request voice_world ''key'' default_voice ''hello'') =
     Inr \<lparr>status_code = 500, content = ''quota exceeded''\<rparr> \<and>
   text_to_speech voice_world ''hello'' ''speech.mp3'' Map.empty = (Inr None, Map.empty)"
proof -
  let ?r = "\<lparr>status_code = 500, content = ''quota exceeded''\<rparr>"
  have k: "environ voice_world ''ELEVEN_LABS_API_KEY'' = Some ''key''"
    by (simp add: voice_world_def)
  have ne: "''key'' \<noteq> []"
    by simp
  have h: "http voice_world (speech_request voice_world ''key'' default_voice ''hello'') = Inr ?r"
    by (simp add: voice_world_def voice_http_def speech_request_def)
  have s: "http voice_world (speech_request voice_world ''key'' default_voice ''hello'') = Inr ?r \<and>
      status_code ?r \<noteq> 200"
    using h by simp
  have all: "\<forall>r. http voice_world (speech_request voice_world ''key'' default_voice ''hello'') =
        Inr r \<and> status_code r \<noteq> 200 \<longrightarrow>
      text_to_speech voice_world ''hello'' ''speech.mp3'' Map.empty = (Inr None, Map.empty)"
    using text_to_speech_writes_only_on_200[OF k ne voice_world_select,
        of "''hello''" "''speech.mp3''" Map.empty]
    by (elim conjE)
  from all s have t: "text_to_speech voice_world ''hello'' ''speech.mp3'' Map.empty =
      (Inr None, Map.empty)"
    by (elim allE impE) assumption+
  show ?thesis
    by (intro conjI) (fact k voice_world_select h t)+
qed


section \<open>Properties of the duration reconciliation\<close>









end
